theory Spec2Isabelle
  imports Complex_Main "HOL-Library.Word"
begin

text \<open>
  The plan routes (\<open>POST /plans\<close>, \<open>GET /plans\<close> and \<open>GET /plans/:identifier\<close>, with
  their two validation schemas) and the role gate \<open>requireRole\<close>, as functions from a
  request and the state of the store to what is sent back and the new state of the store.
  Exceptions are outcomes; the libraries that the two files call are parameters.
\<close>

section \<open>JavaScript values\<close>

text \<open>
  A JavaScript string is a sequence of UTF-16 code units, and \<open>length\<close> counts code
  units. Property names and the fixed texts of the source are written as HOL strings;
  \<open>js\<close> turns such a literal into the string value the program handles.
\<close>

type_synonym jsstring = "16 word list"

definition js :: "string \<Rightarrow> jsstring" where
  "js s = map of_char s"

text \<open>An ObjectId is a 12-byte value. A \<open>Date\<close> holds milliseconds since the epoch, or is invalid.\<close>

type_synonym objectid = "96 word"

datatype jsdate = Date int | InvalidDate

datatype jsval =
    JUndefined
  | JNull
  | JBool bool
  | JNum rat
  | JStr jsstring
  | JDate jsdate
  | JObjectId objectid
  | JFunction string
  | JArray "jsval list"
  | JObject "(string \<times> jsval) list"

text \<open>An object is read by property name; a property that is absent reads as \<open>undefined\<close>.\<close>

type_synonym jsobject = "string \<Rightarrow> jsval"

definition object :: "(string \<times> jsval) list \<Rightarrow> jsobject" where
  "object kvs k = (case map_of kvs k of None \<Rightarrow> JUndefined | Some v \<Rightarrow> v)"

text \<open>\<open>ToBoolean\<close>, as used by \<open>if (x)\<close>, \<open>x ? a : b\<close> and \<open>assert(x)\<close>.\<close>

fun truthy :: "jsval \<Rightarrow> bool" where
  "truthy JUndefined = False"
| "truthy JNull = False"
| "truthy (JBool b) = b"
| "truthy (JNum r) = (r \<noteq> 0)"
| "truthy (JStr s) = (s \<noteq> [])"
| "truthy (JDate d) = True"
| "truthy (JObjectId i) = True"
| "truthy (JFunction f) = True"
| "truthy (JArray xs) = True"
| "truthy (JObject kvs) = True"

text \<open>
  \<open>String.prototype.trim\<close> removes the ECMAScript white space and line terminator code
  units from both ends.
\<close>

definition isWhiteSpace :: "16 word \<Rightarrow> bool" where
  "isWhiteSpace c =
     (c \<in> set [0x0009, 0x000A, 0x000B, 0x000C, 0x000D, 0x0020, 0x00A0, 0x1680,
               0x2028, 0x2029, 0x202F, 0x205F, 0x3000, 0xFEFF]
      \<or> (0x2000 \<le> c \<and> c \<le> 0x200A))"

definition trim :: "jsstring \<Rightarrow> jsstring" where
  "trim s = rev (dropWhile isWhiteSpace (rev (dropWhile isWhiteSpace s)))"

text \<open>The character classes of the two regular expressions in play.\<close>

definition isDigit :: "16 word \<Rightarrow> bool" where
  "isDigit c = (0x30 \<le> c \<and> c \<le> 0x39)"

definition isLower :: "16 word \<Rightarrow> bool" where
  "isLower c = (0x61 \<le> c \<and> c \<le> 0x7A)"

definition isUpper :: "16 word \<Rightarrow> bool" where
  "isUpper c = (0x41 \<le> c \<and> c \<le> 0x5A)"

section \<open>Failures and responses\<close>

datatype failure =
    TypeError
  | AssertionError string
  | ObjectIdError
  | StoreError string

text \<open>The status names of \<open>util/httpStatus\<close> that the sources use.\<close>

datatype status = OK | CREATED | BAD_REQUEST | FORBIDDEN | NOT_FOUND

text \<open>
  What a middleware or a handler does with a request: it sends a response with a JSON
  body, it calls \<open>next()\<close>, or an exception escapes it.
\<close>

datatype outcome = Respond status jsval | Next | Throw failure

definition message :: "jsstring \<Rightarrow> jsval" where
  "message m = JObject [(''message'', JStr m)]"

section \<open>The validation engine\<close>

text \<open>
  A validation error names the key and what was wrong with it; the wording of
  \<open>error.message\<close> is the engine's.
\<close>

datatype violation =
    Required
  | NotAString
  | Empty
  | TooShort
  | TooLong
  | NotAlphanum
  | NotAllowed
  | NotANumber
  | NotAnInteger
  | TooSmall
  | TooLarge
  | NotADate
  | NotABoolean

datatype joi_error = ValidationError string violation

datatype string_rule = Trim | Lowercase | Alphanum | Min nat | Max nat

datatype number_rule = Integer | MinN rat | MaxN rat

section \<open>The plan documents and the store's queries\<close>

text \<open>The value that \<open>planSchema.validate\<close> produces: the eleven fields, normalised.\<close>

record plan_value =
  name :: jsstring
  code :: jsstring
  description :: "jsstring option"
  billingCyclePeriod :: rat
  billingCyclePeriodUnit :: jsstring
  pricePerBillingCycle :: rat
  setupFee :: rat
  totalBillingCycles :: rat
  trialPeriod :: rat
  trialPeriodUnit :: jsstring
  renews :: bool

text \<open>
  Modelled from the spec: the Plan model (\<open>model/plan\<close>) is not among the sources. A
  plan document carries the eleven validated fields, its owner, a system-assigned
  identifier and the two system timestamps.
\<close>

record plan = plan_value +
  ident :: objectid
  ownerId :: objectid
  createdAt :: int
  updatedAt :: int

text \<open>
  A filter is a list of clauses, all of which a document has to satisfy: \<open>{k: v}\<close>,
  \<open>{k: {$gte: a, $lte: b}}\<close>, \<open>{k: /source/flags}\<close>, \<open>{$or: [...]}\<close> and the
  \<open>.and([...])\<close> of a query.
\<close>

datatype condition =
    Eq jsval
  | Gte_Lte jsdate jsdate
  | RegExp jsstring string

datatype clause =
    Field string condition
  | Or "clause list list"
  | And "clause list list"

text \<open>What the handlers ask of the store, in order.\<close>

datatype access =
    FindOne "clause list"
  | Save plan
  | Paginate "clause list" rat rat

record db =
  plans :: "plan list"
  accesses :: "access list"

text \<open>What the pagination plugin hands back.\<close>

record paginate_result =
  totalDocs :: rat
  limit' :: rat
  totalPages :: rat
  prevPage :: "rat option"
  nextPage :: "rat option"
  hasPrevPage :: bool
  hasNextPage :: bool
  docs :: "plan list"

record user =
  role :: jsstring

section \<open>The environment of a request\<close>

text \<open>
  The libraries, the configuration and the system services that the two source files call
  and that are not theirs: the handlers are modelled for every behaviour of these.
  \<^item> \<open>ObjectId\<close> is \<open>new Types.ObjectId(s)\<close>; \<open>None\<close> when the constructor throws.
  \<^item> \<open>toLowerCase\<close> is the engine's lower-casing of a string.
  \<^item> \<open>numberBase\<close>, \<open>dateBase\<close> and \<open>booleanBase\<close> are the type checks and
    conversions of \<open>joi.number()\<close>, \<open>joi.date()\<close> and \<open>joi.boolean()\<close> on a value
    that is not \<open>undefined\<close>; \<open>None\<close> when the value is refused.
  \<^item> \<open>errorMessage\<close> is the text of \<open>error.message\<close>.
  \<^item> \<open>subMonths\<close>, \<open>startOfDay\<close> and \<open>endOfDay\<close> are the date-fns functions.
  \<^item> \<open>escapeRegex\<close> is \<open>misc.escapeRegex\<close> and \<open>regexTest\<close> matches a
    case-insensitive regular expression, given by its source, against a string.
  \<^item> \<open>PAGINATE_MAX_LIMIT\<close> is the constant of \<open>util/constants\<close>.
  \<^item> \<open>paginate\<close> is \<open>Plan.paginate(filters, options)\<close> on the stored plans, with the
    limit and the page asked for.
  \<^item> \<open>User_findById\<close> is the pair \<open>(error, user)\<close> that \<open>User.findById\<close> passes to
    its callback.
  \<^item> \<open>now k\<close> is what the \<open>k\<close>-th \<open>new Date()\<close> of the request reads, and
    \<open>freshId\<close> the identifier generated for a new document.
\<close>

record env =
  ObjectId :: "jsstring \<Rightarrow> objectid option"
  toLowerCase :: "jsstring \<Rightarrow> jsstring"
  numberBase :: "jsval \<Rightarrow> rat option"
  dateBase :: "jsval \<Rightarrow> int option"
  booleanBase :: "jsval \<Rightarrow> bool option"
  errorMessage :: "joi_error \<Rightarrow> jsstring"
  subMonths :: "jsdate \<Rightarrow> jsval \<Rightarrow> jsdate"
  startOfDay :: "jsval \<Rightarrow> jsdate"
  endOfDay :: "jsval \<Rightarrow> jsdate"
  escapeRegex :: "jsstring \<Rightarrow> jsstring"
  regexTest :: "jsstring \<Rightarrow> jsstring \<Rightarrow> bool"
  PAGINATE_MAX_LIMIT :: rat
  paginate :: "plan list \<Rightarrow> clause list \<Rightarrow> rat \<Rightarrow> rat \<Rightarrow> failure + paginate_result"
  User_findById :: "jsstring \<Rightarrow> failure option \<times> user option"
  now :: "nat \<Rightarrow> int"
  freshId :: objectid

text \<open>
  A request as the handlers read it: \<open>request.body\<close>, \<open>request.query\<close>,
  \<open>request.params.identifier\<close> and \<open>request.user.identifier\<close>.
\<close>

record request =
  body :: jsobject
  query :: jsobject
  params_identifier :: jsstring
  user_identifier :: jsstring

section \<open>The schema rules\<close>

text \<open>
  With conversion enabled (the default of \<open>validate\<close>), a string is first lower-cased when
  the schema says \<open>lowercase()\<close> and then trimmed when it says \<open>trim()\<close>; the rules are
  checked on the converted value, in the order in which the schema lists them, and the
  first one that fails is reported.
\<close>

definition coerce_string :: "env \<Rightarrow> string_rule list \<Rightarrow> jsstring \<Rightarrow> jsstring" where
  "coerce_string e rules s =
     (let s1 = (if Lowercase \<in> set rules then toLowerCase e s else s)
      in if Trim \<in> set rules then trim s1 else s1)"

fun check_rule :: "string_rule \<Rightarrow> jsstring \<Rightarrow> violation option" where
  "check_rule Trim s = None"
| "check_rule Lowercase s = None"
| "check_rule Alphanum s =
     (if s \<noteq> [] \<and> list_all (\<lambda>c. isLower c \<or> isUpper c \<or> isDigit c) s then None
      else Some NotAlphanum)"
| "check_rule (Min n) s = (if n \<le> length s then None else Some TooShort)"
| "check_rule (Max n) s = (if length s \<le> n then None else Some TooLong)"

fun check_rules :: "string_rule list \<Rightarrow> jsstring \<Rightarrow> violation option" where
  "check_rules [] s = None"
| "check_rules (r # rs) s =
     (case check_rule r s of Some v \<Rightarrow> Some v | None \<Rightarrow> check_rules rs s)"

text \<open>
  \<open>joi.string()...required()\<close>: \<open>undefined\<close> is refused, anything but a string is
  refused, and so is a string that is empty once converted.
\<close>

definition joi_string_required ::
  "env \<Rightarrow> string \<Rightarrow> string_rule list \<Rightarrow> jsval \<Rightarrow> joi_error + jsstring" where
  "joi_string_required e key rules v =
     (case v of
        JUndefined \<Rightarrow> Inl (ValidationError key Required)
      | JStr s \<Rightarrow>
          (let s' = coerce_string e rules s
           in if s' = [] then Inl (ValidationError key Empty)
              else (case check_rules rules s' of
                      Some w \<Rightarrow> Inl (ValidationError key w)
                    | None \<Rightarrow> Inr s'))
      | _ \<Rightarrow> Inl (ValidationError key NotAString))"

text \<open>
  \<open>joi.string()...allow(null).empty("").default(null)\<close>: \<open>null\<close> is let through, a
  string that is empty once converted counts as absent, and an absent value becomes
  \<open>null\<close> (\<open>None\<close>).
\<close>

definition joi_string_nullable ::
  "env \<Rightarrow> string \<Rightarrow> string_rule list \<Rightarrow> jsval \<Rightarrow> joi_error + jsstring option" where
  "joi_string_nullable e key rules v =
     (case v of
        JUndefined \<Rightarrow> Inr None
      | JNull \<Rightarrow> Inr None
      | JStr s \<Rightarrow>
          (let s' = coerce_string e rules s
           in if s' = [] then Inr None
              else (case check_rules rules s' of
                      Some w \<Rightarrow> Inl (ValidationError key w)
                    | None \<Rightarrow> Inr (Some s')))
      | _ \<Rightarrow> Inl (ValidationError key NotAString))"

text \<open>
  \<open>joi.string().valid(...)\<close>, followed by \<open>required()\<close> (no default) or by
  \<open>default(d)\<close>: only the listed strings are let through.
\<close>

definition joi_valid ::
  "string \<Rightarrow> jsstring list \<Rightarrow> jsstring option \<Rightarrow> jsval \<Rightarrow> joi_error + jsstring" where
  "joi_valid key allowed dflt v =
     (case v of
        JUndefined \<Rightarrow>
          (case dflt of None \<Rightarrow> Inl (ValidationError key Required) | Some d \<Rightarrow> Inr d)
      | JStr s \<Rightarrow> (if s \<in> set allowed then Inr s else Inl (ValidationError key NotAllowed))
      | _ \<Rightarrow> Inl (ValidationError key NotAllowed))"

fun check_number_rule :: "number_rule \<Rightarrow> rat \<Rightarrow> violation option" where
  "check_number_rule Integer r = (if r = of_int \<lfloor>r\<rfloor> then None else Some NotAnInteger)"
| "check_number_rule (MinN m) r = (if m \<le> r then None else Some TooSmall)"
| "check_number_rule (MaxN m) r = (if r \<le> m then None else Some TooLarge)"

fun check_number_rules :: "number_rule list \<Rightarrow> rat \<Rightarrow> violation option" where
  "check_number_rules [] r = None"
| "check_number_rules (q # qs) r =
     (case check_number_rule q r of Some v \<Rightarrow> Some v | None \<Rightarrow> check_number_rules qs r)"

text \<open>\<open>joi.number()...\<close>, followed by \<open>required()\<close> (no default) or by \<open>default(d)\<close>.\<close>

definition joi_number ::
  "env \<Rightarrow> string \<Rightarrow> number_rule list \<Rightarrow> rat option \<Rightarrow> jsval \<Rightarrow> joi_error + rat" where
  "joi_number e key rules dflt v =
     (case v of
        JUndefined \<Rightarrow>
          (case dflt of None \<Rightarrow> Inl (ValidationError key Required) | Some d \<Rightarrow> Inr d)
      | _ \<Rightarrow>
          (case numberBase e v of
             None \<Rightarrow> Inl (ValidationError key NotANumber)
           | Some r \<Rightarrow>
               (case check_number_rules rules r of
                  Some w \<Rightarrow> Inl (ValidationError key w)
                | None \<Rightarrow> Inr r)))"

text \<open>\<open>joi.boolean().default(d)\<close>.\<close>

definition joi_boolean :: "env \<Rightarrow> string \<Rightarrow> bool \<Rightarrow> jsval \<Rightarrow> joi_error + bool" where
  "joi_boolean e key dflt v =
     (case v of
        JUndefined \<Rightarrow> Inr dflt
      | _ \<Rightarrow>
          (case booleanBase e v of
             None \<Rightarrow> Inl (ValidationError key NotABoolean)
           | Some b \<Rightarrow> Inr b))"

text \<open>
  \<open>joi.date()\<close>, optional unless \<open>required\<close>: an absent value stays absent (\<open>None\<close>),
  a present one has to be a date.
\<close>

definition joi_date :: "env \<Rightarrow> string \<Rightarrow> bool \<Rightarrow> jsval \<Rightarrow> joi_error + int option" where
  "joi_date e key required v =
     (case v of
        JUndefined \<Rightarrow> (if required then Inl (ValidationError key Required) else Inr None)
      | _ \<Rightarrow>
          (case dateBase e v of
             None \<Rightarrow> Inl (ValidationError key NotADate)
           | Some t \<Rightarrow> Inr (Some t)))"

text \<open>
  The condition of \<open>.when(ref, { is: literal, then: ... })\<close>: the reference is read from
  the object under validation by its key, and a literal \<open>is\<close> holds only when that
  property is present and equal to the literal.
\<close>

definition when_is :: "jsobject \<Rightarrow> string \<Rightarrow> jsstring \<Rightarrow> bool" where
  "when_is parent ref lit = (parent ref = JStr lit)"

section \<open>The two schemas\<close>

text \<open>The \<open>name\<close> key of \<open>planSchema\<close>: \<open>joi.string().trim().min(2).max(100).required()\<close>.\<close>

definition name_constraint :: "env \<Rightarrow> jsval \<Rightarrow> joi_error + jsstring" where
  "name_constraint e v = joi_string_required e ''name'' [Trim, Min 2, Max 100] v"

text \<open>\<open>planSchema.validate(parameters)\<close>: the keys are validated in the schema's order.\<close>

definition planSchema_validate :: "env \<Rightarrow> jsobject \<Rightarrow> joi_error + plan_value" where
  "planSchema_validate e p =
     (case name_constraint e (p ''name'') of
        Inl err \<Rightarrow> Inl err
      | Inr v1 \<Rightarrow>
     (case joi_string_required e ''code'' [Trim, Lowercase, Alphanum, Min 2, Max 20] (p ''code'') of
        Inl err \<Rightarrow> Inl err
      | Inr v2 \<Rightarrow>
     (case joi_string_nullable e ''description'' [Trim, Max 200] (p ''description'') of
        Inl err \<Rightarrow> Inl err
      | Inr v3 \<Rightarrow>
     (case joi_number e ''billingCyclePeriod'' [Integer] None (p ''billingCyclePeriod'') of
        Inl err \<Rightarrow> Inl err
      | Inr v4 \<Rightarrow>
     (case joi_valid ''billingCyclePeriodUnit'' [js ''days'', js ''months''] None
             (p ''billingCyclePeriodUnit'') of
        Inl err \<Rightarrow> Inl err
      | Inr v5 \<Rightarrow>
     (case joi_number e ''pricePerBillingCycle'' [] None (p ''pricePerBillingCycle'') of
        Inl err \<Rightarrow> Inl err
      | Inr v6 \<Rightarrow>
     (case joi_number e ''setupFee'' [] (Some 0) (p ''setupFee'') of
        Inl err \<Rightarrow> Inl err
      | Inr v7 \<Rightarrow>
     (case joi_number e ''totalBillingCycles'' [Integer] None (p ''totalBillingCycles'') of
        Inl err \<Rightarrow> Inl err
      | Inr v8 \<Rightarrow>
     (case joi_number e ''trialPeriod'' [Integer] (Some 0) (p ''trialPeriod'') of
        Inl err \<Rightarrow> Inl err
      | Inr v9 \<Rightarrow>
     (case joi_valid ''trialPeriodUnit'' [js ''days'', js ''months''] (Some (js ''days''))
             (p ''trialPeriodUnit'') of
        Inl err \<Rightarrow> Inl err
      | Inr v10 \<Rightarrow>
     (case joi_boolean e ''renews'' True (p ''renews'') of
        Inl err \<Rightarrow> Inl err
      | Inr v11 \<Rightarrow>
          Inr \<lparr> name = v1, code = v2, description = v3, billingCyclePeriod = v4,
                billingCyclePeriodUnit = v5, pricePerBillingCycle = v6, setupFee = v7,
                totalBillingCycles = v8, trialPeriod = v9, trialPeriodUnit = v10,
                renews = v11 \<rparr>)))))))))))"

text \<open>The value that \<open>filterSchema.validate\<close> produces.\<close>

record filter_value =
  page :: rat
  limit :: rat
  dateRange :: jsstring
  startDate :: "int option"
  endDate :: "int option"
  search :: "jsstring option"

definition dateRange_tags :: "jsstring list" where
  "dateRange_tags =
     [js ''all_time'', js ''last_3_months'', js ''last_6_months'', js ''last_9_months'',
      js ''last_12_months'', js ''last_15_months'', js ''last_18_months'', js ''custom'']"

text \<open>
  \<open>filterSchema.validate(parameters)\<close>. The two dates are required when the property
  \<open>date_range\<close> of the object under validation is \<open>"custom"\<close>.
\<close>

definition filterSchema_validate :: "env \<Rightarrow> jsobject \<Rightarrow> joi_error + filter_value" where
  "filterSchema_validate e p =
     (case joi_number e ''page'' [Integer] (Some 0) (p ''page'') of
        Inl err \<Rightarrow> Inl err
      | Inr v1 \<Rightarrow>
     (case joi_number e ''limit'' [Integer, MinN 10, MaxN (PAGINATE_MAX_LIMIT e)] (Some 20)
             (p ''limit'') of
        Inl err \<Rightarrow> Inl err
      | Inr v2 \<Rightarrow>
     (case joi_valid ''dateRange'' dateRange_tags (Some (js ''all_time'')) (p ''dateRange'') of
        Inl err \<Rightarrow> Inl err
      | Inr v3 \<Rightarrow>
     (case joi_date e ''startDate'' (when_is p ''date_range'' (js ''custom'')) (p ''startDate'') of
        Inl err \<Rightarrow> Inl err
      | Inr v4 \<Rightarrow>
     (case joi_date e ''endDate'' (when_is p ''date_range'' (js ''custom'')) (p ''endDate'') of
        Inl err \<Rightarrow> Inl err
      | Inr v5 \<Rightarrow>
     (case joi_string_nullable e ''search'' [Trim] (p ''search'') of
        Inl err \<Rightarrow> Inl err
      | Inr v6 \<Rightarrow>
          Inr \<lparr> page = v1, limit = v2, dateRange = v3, startDate = v4, endDate = v5,
                search = v6 \<rparr>))))))"

section \<open>The store\<close>

text \<open>
  Modelled from the spec: the Plan model is not among the sources. These are the paths of
  a stored plan that a filter can name.
\<close>

definition plan_field :: "plan \<Rightarrow> jsobject" where
  "plan_field p =
     object
       [(''_id'', JObjectId (ident p)),
        (''ownerId'', JObjectId (ownerId p)),
        (''name'', JStr (name p)),
        (''code'', JStr (code p)),
        (''description'', (case description p of None \<Rightarrow> JNull | Some s \<Rightarrow> JStr s)),
        (''billingCyclePeriod'', JNum (billingCyclePeriod p)),
        (''billingCyclePeriodUnit'', JStr (billingCyclePeriodUnit p)),
        (''pricePerBillingCycle'', JNum (pricePerBillingCycle p)),
        (''setupFee'', JNum (setupFee p)),
        (''totalBillingCycles'', JNum (totalBillingCycles p)),
        (''trialPeriod'', JNum (trialPeriod p)),
        (''trialPeriodUnit'', JStr (trialPeriodUnit p)),
        (''renews'', JBool (renews p)),
        (''createdAt'', JDate (Date (createdAt p))),
        (''updatedAt'', JDate (Date (updatedAt p)))]"

text \<open>
  When a stored value satisfies a condition. \<open>$gte\<close> and \<open>$lte\<close> together are a closed
  interval: both ends are included.
\<close>

fun holds :: "(jsstring \<Rightarrow> jsstring \<Rightarrow> bool) \<Rightarrow> condition \<Rightarrow> jsval \<Rightarrow> bool" where
  "holds rx (Eq v) x = (x = v)"
| "holds rx (Gte_Lte (Date a) (Date b)) (JDate (Date t)) = (a \<le> t \<and> t \<le> b)"
| "holds rx (Gte_Lte lo hi) x = False"
| "holds rx (RegExp src flags) (JStr s) = rx src s"
| "holds rx (RegExp src flags) x = False"

fun matches :: "(jsstring \<Rightarrow> jsstring \<Rightarrow> bool) \<Rightarrow> plan \<Rightarrow> clause \<Rightarrow> bool" where
  "matches rx p (Field k c) = holds rx c (plan_field p k)"
| "matches rx p (Or alts) = list_ex (list_all (matches rx p)) alts"
| "matches rx p (And alls) = list_all (list_all (matches rx p)) alls"

definition satisfies :: "env \<Rightarrow> clause list \<Rightarrow> plan \<Rightarrow> bool" where
  "satisfies e flt p = list_all (matches (regexTest e) p) flt"

text \<open>The paths that a filter constrains by an interval, wherever in the filter.\<close>

fun bounded_fields :: "clause \<Rightarrow> string list" where
  "bounded_fields (Field k (Gte_Lte lo hi)) = [k]"
| "bounded_fields (Field k c) = []"
| "bounded_fields (Or alts) = concat (map (\<lambda>cs. concat (map bounded_fields cs)) alts)"
| "bounded_fields (And alls) = concat (map (\<lambda>cs. concat (map bounded_fields cs)) alls)"

text \<open>
  \<open>findOne(filter).exec()\<close>, and \<open>findById(id).and(...)\<close>, which is a \<open>findOne\<close> too:
  the first stored plan that satisfies the filter, or \<open>null\<close> (\<open>None\<close>).
\<close>

definition Plan_findOne :: "env \<Rightarrow> clause list \<Rightarrow> db \<Rightarrow> plan option \<times> db" where
  "Plan_findOne e flt d =
     (find (satisfies e flt) (plans d), d\<lparr>accesses := accesses d @ [FindOne flt]\<rparr>)"

text \<open>
  Modelled from the spec: \<open>new Plan(value)\<close> with \<open>value.ownerId\<close> set, a generated
  identifier and the timestamps that saving assigns; \<open>save()\<close> adds the document to the
  store.
\<close>

definition new_Plan :: "env \<Rightarrow> plan_value \<Rightarrow> objectid \<Rightarrow> plan" where
  "new_Plan e v owner =
     \<lparr> name = name v, code = code v, description = description v,
       billingCyclePeriod = billingCyclePeriod v,
       billingCyclePeriodUnit = billingCyclePeriodUnit v,
       pricePerBillingCycle = pricePerBillingCycle v, setupFee = setupFee v,
       totalBillingCycles = totalBillingCycles v, trialPeriod = trialPeriod v,
       trialPeriodUnit = trialPeriodUnit v, renews = renews v,
       ident = freshId e, ownerId = owner, createdAt = now e 0, updatedAt = now e 0 \<rparr>"

definition save :: "plan \<Rightarrow> db \<Rightarrow> db" where
  "save p d = d\<lparr>plans := plans d @ [p], accesses := accesses d @ [Save p]\<rparr>"

definition Plan_paginate ::
  "env \<Rightarrow> clause list \<Rightarrow> rat \<Rightarrow> rat \<Rightarrow> db \<Rightarrow> (failure + paginate_result) \<times> db" where
  "Plan_paginate e flt n pg d =
     (paginate e (plans d) flt n pg, d\<lparr>accesses := accesses d @ [Paginate flt n pg]\<rparr>)"

section \<open>The plan routes\<close>

definition toExternal :: "plan \<Rightarrow> jsval" where
  "toExternal plan =
     JObject
       [(''id'', JObjectId (ident plan)),
        (''ownerId'', JObjectId (ownerId plan)),
        (''name'', JStr (name plan)),
        (''code'', JStr (code plan)),
        (''description'', (case description plan of None \<Rightarrow> JNull | Some s \<Rightarrow> JStr s)),
        (''billingCyclePeriod'', JNum (billingCyclePeriod plan)),
        (''billingCyclePeriodUnit'', JStr (billingCyclePeriodUnit plan)),
        (''pricePerBillingCycle'', JNum (pricePerBillingCycle plan)),
        (''setupFee'', JNum (setupFee plan)),
        (''totalBillingCycles'', JNum (totalBillingCycles plan)),
        (''trialPeriod'', JNum (trialPeriod plan)),
        (''trialPeriodUnit'', JStr (trialPeriodUnit plan)),
        (''renews'', JBool (renews plan)),
        (''createdAt'', JDate (Date (createdAt plan))),
        (''updatedAt'', JDate (Date (updatedAt plan)))]"

text \<open>A property of a JSON object as sent; \<open>None\<close> when it has no such property.\<close>

fun property :: "jsval \<Rightarrow> string \<Rightarrow> jsval option" where
  "property (JObject kvs) k = map_of kvs k"
| "property v k = None"

subsection \<open>\<open>POST /plans\<close>\<close>

definition post_parameters :: "jsobject \<Rightarrow> jsobject" where
  "post_parameters b =
     object
       [(''name'', b ''name''),
        (''code'', b ''code''),
        (''description'', b ''description''),
        (''billingCyclePeriod'', b ''billingCyclePeriod''),
        (''billingCyclePeriodUnit'', b ''billingCyclePeriodUnit''),
        (''pricePerBillingCycle'', b ''pricePerBillingCycle''),
        (''setupFee'', b ''setupFee''),
        (''totalBillingCycles'', b ''totalBillingCycles''),
        (''trialPeriod'', b ''trialPeriod''),
        (''trialPeriodUnit'', b ''trialPeriodUnit''),
        (''renews'', b ''renews'')]"

definition post_plans :: "env \<Rightarrow> request \<Rightarrow> db \<Rightarrow> outcome \<times> db" where
  "post_plans e request d =
     (case planSchema_validate e (post_parameters (body request)) of
        Inl error \<Rightarrow> (Respond BAD_REQUEST (message (errorMessage e error)), d)
      | Inr v \<Rightarrow>
          (case ObjectId e (user_identifier request) of
             None \<Rightarrow> (Throw ObjectIdError, d)
           | Some owner \<Rightarrow>
               (case Plan_findOne e
                       [Field ''code'' (Eq (JStr (code v))), Field ''ownerId'' (Eq (JObjectId owner))]
                       d of
                  (Some plan, d1) \<Rightarrow>
                    (Respond BAD_REQUEST
                       (message (js ''A plan with the specified code already exists.'')), d1)
                | (None, d1) \<Rightarrow>
                    (let newPlan = new_Plan e v owner
                     in (Respond CREATED (toExternal newPlan), save newPlan d1)))))"

subsection \<open>\<open>GET /plans\<close>\<close>

definition get_parameters :: "jsobject \<Rightarrow> jsobject" where
  "get_parameters q =
     object
       [(''page'', q ''page''),
        (''limit'', q ''limit''),
        (''dateRange'', q ''date_range''),
        (''startDate'', q ''start_date''),
        (''endDate'', q ''end_date''),
        (''search'', q ''search'')]"

text \<open>
  \<open>months[dateRange]\<close>: the six properties of the object literal, and, for any other
  name, what the literal inherits from \<open>Object.prototype\<close>.
\<close>

definition Object_prototype :: "jsstring \<Rightarrow> jsval" where
  "Object_prototype k =
     (if k = js ''__proto__'' then JObject []
      else if k \<in> set (map js
          [''constructor'', ''hasOwnProperty'', ''isPrototypeOf'', ''propertyIsEnumerable'',
           ''toLocaleString'', ''toString'', ''valueOf'', ''__defineGetter__'',
           ''__defineSetter__'', ''__lookupGetter__'', ''__lookupSetter__''])
      then JFunction ''Object.prototype''
      else JUndefined)"

definition months :: "jsstring \<Rightarrow> jsval" where
  "months k =
     (case map_of
        [(js ''last_3_months'', JNum 3),
         (js ''last_6_months'', JNum 6),
         (js ''last_9_months'', JNum 9),
         (js ''last_12_months'', JNum 12),
         (js ''last_15_months'', JNum 15),
         (js ''last_18_months'', JNum 18)] k of
        Some v \<Rightarrow> v
      | None \<Rightarrow> Object_prototype k)"

definition date_or_undefined :: "int option \<Rightarrow> jsval" where
  "date_or_undefined t = (case t of None \<Rightarrow> JUndefined | Some ms \<Rightarrow> JDate (Date ms))"

text \<open>
  Lines 162 to 181: the start and end dates of the validated value, replaced for a
  relative range. The assertion throws when the table has nothing truthy for the tag.
\<close>

definition resolve_dates :: "env \<Rightarrow> filter_value \<Rightarrow> failure + (jsval \<times> jsval)" where
  "resolve_dates e v =
     (if dateRange v \<noteq> js ''custom'' \<and> dateRange v \<noteq> js ''all_time'' then
        (let amount = months (dateRange v)
         in if truthy amount
            then Inr (JDate (subMonths e (Date (now e 0)) amount), JDate (Date (now e 1)))
            else Inl (AssertionError
                   ''The specified date range is invalid. How did Joi let it through?''))
      else Inr (date_or_undefined (startDate v), date_or_undefined (endDate v)))"

text \<open>
  Lines 183 to 197: the filter handed to the store is the owner clause, then the
  \<open>createdAt\<close> clause unless the range is \<open>all_time\<close>, then the search clause when
  \<open>value.search\<close> is truthy.
\<close>

definition date_clause :: "env \<Rightarrow> filter_value \<Rightarrow> jsval \<Rightarrow> jsval \<Rightarrow> clause list" where
  "date_clause e v sd ed =
     (if dateRange v \<noteq> js ''all_time''
      then [Field ''createdAt'' (Gte_Lte (startOfDay e sd) (endOfDay e ed))]
      else [])"

definition search_clause :: "env \<Rightarrow> filter_value \<Rightarrow> clause list" where
  "search_clause e v =
     (case search v of
        None \<Rightarrow> []
      | Some s \<Rightarrow>
          (if s \<noteq> []
           then [Or [[Field ''code'' (RegExp (escapeRegex e s) ''i'')],
                     [Field ''name'' (RegExp (escapeRegex e s) ''i'')]]]
           else []))"

definition filters :: "env \<Rightarrow> objectid \<Rightarrow> filter_value \<Rightarrow> jsval \<Rightarrow> jsval \<Rightarrow> clause list" where
  "filters e owner v sd ed =
     [Field ''ownerId'' (Eq (JObjectId owner))] @ date_clause e v sd ed @ search_clause e v"

text \<open>Lines 207 to 217: the envelope, with the pages counted from zero.\<close>

definition page_or_null :: "rat option \<Rightarrow> jsval" where
  "page_or_null pg =
     (case pg of None \<Rightarrow> JNull | Some n \<Rightarrow> (if n \<noteq> 0 then JNum (n - 1) else JNull))"

definition envelope :: "filter_value \<Rightarrow> paginate_result \<Rightarrow> jsval" where
  "envelope v r =
     JObject
       [(''totalRecords'', JNum (totalDocs r)),
        (''page'', JNum (page v)),
        (''limit'', JNum (limit' r)),
        (''totalPages'', JNum (totalPages r)),
        (''previousPage'', page_or_null (prevPage r)),
        (''nextPage'', page_or_null (nextPage r)),
        (''hasPreviousPage'', JBool (hasPrevPage r)),
        (''hasNextPage'', JBool (hasNextPage r)),
        (''records'', JArray (map toExternal (docs r)))]"

text \<open>The handler from line 162 on, for a value that validation has produced.\<close>

definition get_plans_validated :: "env \<Rightarrow> request \<Rightarrow> filter_value \<Rightarrow> db \<Rightarrow> outcome \<times> db" where
  "get_plans_validated e request v d =
     (case resolve_dates e v of
        Inl failed \<Rightarrow> (Throw failed, d)
      | Inr (sd, ed) \<Rightarrow>
          (case ObjectId e (user_identifier request) of
             None \<Rightarrow> (Throw ObjectIdError, d)
           | Some owner \<Rightarrow>
               (case Plan_paginate e (filters e owner v sd ed) (limit v) (page v + 1) d of
                  (Inl failed, d1) \<Rightarrow> (Throw failed, d1)
                | (Inr r, d1) \<Rightarrow> (Respond OK (envelope v r), d1))))"

definition get_plans :: "env \<Rightarrow> request \<Rightarrow> db \<Rightarrow> outcome \<times> db" where
  "get_plans e request d =
     (case filterSchema_validate e (get_parameters (query request)) of
        Inl error \<Rightarrow> (Respond BAD_REQUEST (message (errorMessage e error)), d)
      | Inr v \<Rightarrow> get_plans_validated e request v d)"

subsection \<open>\<open>GET /plans/:identifier\<close>\<close>

text \<open>\<open>/^[a-z0-9]{24}$/.test(s)\<close>.\<close>

definition identifierPattern :: "jsstring \<Rightarrow> bool" where
  "identifierPattern s = (length s = 24 \<and> list_all (\<lambda>c. isLower c \<or> isDigit c) s)"

definition get_plan :: "env \<Rightarrow> request \<Rightarrow> db \<Rightarrow> outcome \<times> db" where
  "get_plan e request d =
     (if \<not> identifierPattern (params_identifier request) then
        (Respond BAD_REQUEST (message (js ''The specified plan identifier is invalid.'')), d)
      else
        (case ObjectId e (user_identifier request) of
           None \<Rightarrow> (Throw ObjectIdError, d)
         | Some owner \<Rightarrow>
             (case ObjectId e (params_identifier request) of
                None \<Rightarrow> (Throw ObjectIdError, d)
              | Some i \<Rightarrow>
                  (case Plan_findOne e
                          [Field ''_id'' (Eq (JObjectId i)),
                           And [[Field ''ownerId'' (Eq (JObjectId owner))]]]
                          d of
                     (Some plan, d1) \<Rightarrow> (Respond OK (toExternal plan), d1)
                   | (None, d1) \<Rightarrow>
                       (Respond NOT_FOUND
                          (message (js ''Cannot find a plan with the specified identifier.'')),
                        d1)))))"

section \<open>The role gate\<close>

definition requireRole :: "jsstring \<Rightarrow> env \<Rightarrow> request \<Rightarrow> outcome" where
  "requireRole r e request =
     (case User_findById e (user_identifier request) of
        (Some error, u) \<Rightarrow> Throw error
      | (None, None) \<Rightarrow> Throw TypeError
      | (None, Some user) \<Rightarrow>
          (if role user \<noteq> r
           then Respond FORBIDDEN (message (js ''The requested resource is forbidden.''))
           else Next))"

section \<open>An environment to run the handlers in\<close>

text \<open>
  One environment among those the handlers are modelled for, simple enough to evaluate:
  identifiers are 24 hexadecimal digits, only ASCII letters change case, numbers, dates
  and booleans are accepted as they are, a string of decimal digits is read as a number
  or as a date in milliseconds and nothing else is converted, a month is 30 days and a
  day is a UTC day, a regular expression matches the strings equal to its source, and
  the store answers with a single page.
\<close>

definition hexDigit :: "16 word \<Rightarrow> objectid option" where
  "hexDigit c =
     (if isDigit c then Some (ucast c - 48)
      else if 0x61 \<le> c \<and> c \<le> 0x66 then Some (ucast c - 87)
      else if 0x41 \<le> c \<and> c \<le> 0x46 then Some (ucast c - 55)
      else None)"

fun hexValue :: "jsstring \<Rightarrow> objectid \<Rightarrow> objectid option" where
  "hexValue [] acc = Some acc"
| "hexValue (c # cs) acc =
     (case hexDigit c of None \<Rightarrow> None | Some h \<Rightarrow> hexValue cs (16 * acc + h))"

definition example_ObjectId :: "jsstring \<Rightarrow> objectid option" where
  "example_ObjectId s = (if length s = 24 then hexValue s 0 else None)"

definition example_toLowerCase :: "jsstring \<Rightarrow> jsstring" where
  "example_toLowerCase s = map (\<lambda>c. if isUpper c then c + 32 else c) s"

fun decimal :: "jsstring \<Rightarrow> int \<Rightarrow> int option" where
  "decimal [] acc = Some acc"
| "decimal (c # cs) acc =
     (if isDigit c then decimal cs (10 * acc + (uint c - 48)) else None)"

fun example_numberBase :: "jsval \<Rightarrow> rat option" where
  "example_numberBase (JNum r) = Some r"
| "example_numberBase (JStr s) = (if s = [] then None else map_option of_int (decimal s 0))"
| "example_numberBase v = None"

fun example_dateBase :: "jsval \<Rightarrow> int option" where
  "example_dateBase (JDate (Date t)) = Some t"
| "example_dateBase (JStr s) = (if s = [] then None else decimal s 0)"
| "example_dateBase v = None"

fun example_booleanBase :: "jsval \<Rightarrow> bool option" where
  "example_booleanBase (JBool b) = Some b"
| "example_booleanBase v = None"

fun example_errorMessage :: "joi_error \<Rightarrow> jsstring" where
  "example_errorMessage (ValidationError key w) = js key"

fun example_subMonths :: "jsdate \<Rightarrow> jsval \<Rightarrow> jsdate" where
  "example_subMonths (Date t) (JNum n) = Date (t - \<lfloor>n\<rfloor> * 2592000000)"
| "example_subMonths d v = InvalidDate"

fun example_startOfDay :: "jsval \<Rightarrow> jsdate" where
  "example_startOfDay (JDate (Date t)) = Date (t - t mod 86400000)"
| "example_startOfDay v = InvalidDate"

fun example_endOfDay :: "jsval \<Rightarrow> jsdate" where
  "example_endOfDay (JDate (Date t)) = Date (t - t mod 86400000 + 86399999)"
| "example_endOfDay v = InvalidDate"

definition example_paginate ::
  "plan list \<Rightarrow> clause list \<Rightarrow> rat \<Rightarrow> rat \<Rightarrow> failure + paginate_result" where
  "example_paginate ps flt n pg =
     (let found = filter (\<lambda>p. list_all (matches (=) p) flt) ps
      in Inr \<lparr> totalDocs = of_nat (length found), limit' = n, totalPages = 1,
               prevPage = None, nextPage = None, hasPrevPage = False,
               hasNextPage = False, docs = found \<rparr>)"

definition example_User_findById :: "jsstring \<Rightarrow> failure option \<times> user option" where
  "example_User_findById s =
     (if s = js ''5f1e5b1f8a1c2b0017a3d4e5'' then (None, Some \<lparr> role = js ''admin'' \<rparr>)
      else (None, None))"

definition example_env :: env where
  "example_env =
     \<lparr> ObjectId = example_ObjectId,
       toLowerCase = example_toLowerCase,
       numberBase = example_numberBase,
       dateBase = example_dateBase,
       booleanBase = example_booleanBase,
       errorMessage = example_errorMessage,
       subMonths = example_subMonths,
       startOfDay = example_startOfDay,
       endOfDay = example_endOfDay,
       escapeRegex = (\<lambda>s. s),
       regexTest = (=),
       PAGINATE_MAX_LIMIT = 100,
       paginate = example_paginate,
       User_findById = example_User_findById,
       now = (\<lambda>k. 1600000000000 + int k),
       freshId = 0x5f1e5b1f8a1c2b0017a3d4ff \<rparr>"

text \<open>Two callers, a create request, and the plan it leads to.\<close>

definition alice :: jsstring where
  "alice = js ''5f1e5b1f8a1c2b0017a3d4e5''"

definition alice_id :: objectid where
  "alice_id = 0x5f1e5b1f8a1c2b0017a3d4e5"

definition bob :: jsstring where
  "bob = js ''5f1e5b1f8a1c2b0017a3d4e6''"

definition bob_id :: objectid where
  "bob_id = 0x5f1e5b1f8a1c2b0017a3d4e6"

definition starter_body :: jsobject where
  "starter_body =
     object
       [(''name'', JStr (js ''Starter'')),
        (''code'', JStr (js ''STARTER'')),
        (''billingCyclePeriod'', JNum 1),
        (''billingCyclePeriodUnit'', JStr (js ''months'')),
        (''pricePerBillingCycle'', JNum (999 / 100)),
        (''totalBillingCycles'', JNum 12),
        (''ownerId'', JStr bob)]"

definition starter_value :: plan_value where
  "starter_value =
     \<lparr> name = js ''Starter'', code = js ''starter'', description = None,
       billingCyclePeriod = 1, billingCyclePeriodUnit = js ''months'',
       pricePerBillingCycle = 999 / 100, setupFee = 0, totalBillingCycles = 12,
       trialPeriod = 0, trialPeriodUnit = js ''days'', renews = True \<rparr>"

definition starter_plan :: plan where
  "starter_plan =
     \<lparr> name = js ''Starter'', code = js ''starter'', description = None,
       billingCyclePeriod = 1, billingCyclePeriodUnit = js ''months'',
       pricePerBillingCycle = 999 / 100, setupFee = 0, totalBillingCycles = 12,
       trialPeriod = 0, trialPeriodUnit = js ''days'', renews = True,
       ident = 0x5f1e5b1f8a1c2b0017a3d4ff, ownerId = alice_id,
       createdAt = 1600000000000, updatedAt = 1600000000000 \<rparr>"

definition request_of :: "jsstring \<Rightarrow> jsobject \<Rightarrow> jsobject \<Rightarrow> jsstring \<Rightarrow> request" where
  "request_of caller b q i =
     \<lparr> body = b, query = q, params_identifier = i, user_identifier = caller \<rparr>"

definition empty_db :: db where
  "empty_db = \<lparr> plans = [], accesses = [] \<rparr>"

definition starter_db :: db where
  "starter_db = \<lparr> plans = [starter_plan], accesses = [] \<rparr>"




definition custom_query :: jsobject where
  "custom_query =
     object
       [(''date_range'', JStr (js ''custom'')),
        (''start_date'', JStr (js ''1599000000000'')),
        (''end_date'', JStr (js ''1601000000000''))]"

definition custom_value :: filter_value where
  "custom_value =
     \<lparr> page = 0, limit = 20, dateRange = js ''custom'', startDate = Some 1599000000000,
       endDate = Some 1601000000000, search = None \<rparr>"



section \<open>Facts about the store and the environment\<close>

lemma satisfies_code_owner:
  "satisfies e [Field ''code'' (Eq (JStr c)), Field ''ownerId'' (Eq (JObjectId ow))] p
     = (code p = c \<and> ownerId p = ow)"
  by (simp add: satisfies_def plan_field_def object_def)

lemma satisfies_id_owner:
  "satisfies e [Field ''_id'' (Eq (JObjectId i)), And [[Field ''ownerId'' (Eq (JObjectId ow))]]] p
     = (ident p = i \<and> ownerId p = ow)"
  by (simp add: satisfies_def plan_field_def object_def)

lemma toExternal_ownerId:
  "property (toExternal p) ''ownerId'' = Some (JObjectId (ownerId p))"
  by (simp add: toExternal_def)

lemma post_plans_body_ownerId:
  "post_plans e (request\<lparr>body := (body request)(''ownerId'' := x)\<rparr>) d = post_plans e request d"
  by (simp add: post_plans_def post_parameters_def cong: sum.case_cong)

lemma example_env_fields:
  "ObjectId example_env = example_ObjectId"
  "toLowerCase example_env = example_toLowerCase"
  "numberBase example_env = example_numberBase"
  "dateBase example_env = example_dateBase"
  "booleanBase example_env = example_booleanBase"
  "errorMessage example_env = example_errorMessage"
  "subMonths example_env = example_subMonths"
  "startOfDay example_env = example_startOfDay"
  "endOfDay example_env = example_endOfDay"
  "escapeRegex example_env = (\<lambda>s. s)"
  "regexTest example_env = (=)"
  "PAGINATE_MAX_LIMIT example_env = 100"
  "paginate example_env = example_paginate"
  "User_findById example_env = example_User_findById"
  "now example_env = (\<lambda>k. 1600000000000 + int k)"
  "freshId example_env = 0x5f1e5b1f8a1c2b0017a3d4ff"
  by (simp_all add: example_env_def)

lemma ObjectId_alice: "ObjectId example_env alice = Some alice_id"
  by (simp add: example_env_fields example_ObjectId_def alice_def alice_id_def js_def
      hexDigit_def isDigit_def)

lemma ObjectId_bob: "ObjectId example_env bob = Some bob_id"
  by (simp add: example_env_fields example_ObjectId_def bob_def bob_id_def js_def
      hexDigit_def isDigit_def)

lemma ObjectId_starter:
  "ObjectId example_env (js ''5f1e5b1f8a1c2b0017a3d4ff'') = Some (ident starter_plan)"
  by (simp add: example_env_fields example_ObjectId_def starter_plan_def js_def
      hexDigit_def isDigit_def)

lemma trim_Starter: "trim (js ''Starter'') = js ''Starter''"
  by (simp add: trim_def js_def isWhiteSpace_def)

lemma trim_STARTER: "trim (example_toLowerCase (js ''STARTER'')) = js ''starter''"
  by (simp add: trim_def js_def isWhiteSpace_def example_toLowerCase_def isUpper_def)

lemma starter_validates:
  "planSchema_validate example_env (post_parameters starter_body) = Inr starter_value"
proof -
  have n: "name_constraint example_env (JStr (js ''Starter'')) = Inr (js ''Starter'')"
    by (simp add: name_constraint_def joi_string_required_def coerce_string_def trim_Starter)
      (simp add: js_def)
  have c: "joi_string_required example_env ''code'' [Trim, Lowercase, Alphanum, Min 2, Max 20]
             (JStr (js ''STARTER'')) = Inr (js ''starter'')"
    by (simp add: joi_string_required_def coerce_string_def example_env_fields trim_STARTER)
      (simp add: js_def isLower_def isUpper_def isDigit_def)
  show ?thesis
    by (simp add: planSchema_validate_def post_parameters_def starter_body_def object_def n c
        joi_string_nullable_def joi_number_def joi_valid_def joi_boolean_def example_env_fields
        starter_value_def)
qed

lemma new_starter_plan: "new_Plan example_env starter_value alice_id = starter_plan"
  by (simp add: new_Plan_def starter_value_def starter_plan_def example_env_fields)







lemma get_plans_access:
  assumes valid: "filterSchema_validate e (get_parameters (query request)) = Inr v"
    and caller: "ObjectId e (user_identifier request) = Some owner"
    and dates: "resolve_dates e v = Inr (sd, ed)"
  shows "accesses (snd (get_plans e request d))
           = accesses d @ [Paginate (filters e owner v sd ed) (limit v) (page v + 1)]"
  by (simp add: get_plans_def valid get_plans_validated_def dates caller Plan_paginate_def
      split: sum.split)

lemma search_clause_unbounded: "concat (map bounded_fields (search_clause e v)) = []"
  by (auto simp: search_clause_def split: option.split)

lemma satisfies_search_updatedAt:
  "list_all (matches rx (p\<lparr>updatedAt := u\<rparr>)) (search_clause e v)
     = list_all (matches rx p) (search_clause e v)"
  by (simp add: search_clause_def plan_field_def object_def split: option.split)



lemma decimal_start: "decimal (js ''1599000000000'') 0 = Some 1599000000000"
  by (simp add: js_def isDigit_def)

lemma decimal_end: "decimal (js ''1601000000000'') 0 = Some 1601000000000"
  by (simp add: js_def isDigit_def)

lemma custom_validates:
  "filterSchema_validate example_env (get_parameters custom_query) = Inr custom_value"
proof -
  have s: "dateBase example_env (JStr (js ''1599000000000'')) = Some 1599000000000"
    using decimal_start by (simp add: example_env_fields) (simp add: js_def)
  have t: "dateBase example_env (JStr (js ''1601000000000'')) = Some 1601000000000"
    using decimal_end by (simp add: example_env_fields) (simp add: js_def)
  show ?thesis
    by (simp add: filterSchema_validate_def get_parameters_def custom_query_def object_def
      joi_number_def joi_valid_def dateRange_tags_def joi_date_def when_is_def
      joi_string_nullable_def custom_value_def s t)
qed



section \<open>Creating a plan\<close>

text \<open>
  C1. A create request that passes validation, from a caller whose identity the
  \<open>ObjectId\<close> constructor accepts and who owns no plan with the normalised code, is
  answered with \<open>CREATED\<close>; the plan added to the store and the plan in the response
  have the caller's identity as \<open>ownerId\<close>. An \<open>ownerId\<close> property of the request body
  is never read: whatever it holds, the handler does the same.
\<close>

theorem create_owner_is_caller:
  assumes valid: "planSchema_validate e (post_parameters (body request)) = Inr v"
    and caller: "ObjectId e (user_identifier request) = Some owner"
    and fresh: "\<not> (\<exists>p \<in> set (plans d). code p = code v \<and> ownerId p = owner)"
  shows "\<exists>p. fst (post_plans e request d) = Respond CREATED (toExternal p)
           \<and> plans (snd (post_plans e request d)) = plans d @ [p]
           \<and> ownerId p = owner
           \<and> property (toExternal p) ''ownerId'' = Some (JObjectId owner)
           \<and> (\<forall>x. post_plans e (request\<lparr>body := (body request)(''ownerId'' := x)\<rparr>) d
                  = post_plans e request d)"
proof -
  let ?flt = "[Field ''code'' (Eq (JStr (code v))), Field ''ownerId'' (Eq (JObjectId owner))]"
  have none: "find (satisfies e ?flt) (plans d) = None"
    using fresh by (auto simp: find_None_iff satisfies_code_owner)
  let ?p = "new_Plan e v owner"
  have run: "post_plans e request d
      = (Respond CREATED (toExternal ?p), save ?p (d\<lparr>accesses := accesses d @ [FindOne ?flt]\<rparr>))"
    by (simp add: post_plans_def valid caller Plan_findOne_def none Let_def)
  have own: "ownerId ?p = owner"
    by (simp add: new_Plan_def)
  show ?thesis
    by (rule exI [of _ ?p]) (simp add: run own save_def toExternal_ownerId post_plans_body_ownerId)
qed

theorem create_owner_is_caller_witness:
  "starter_body ''ownerId'' = JStr bob
   \<and> fst (post_plans example_env (request_of alice starter_body (object []) []) empty_db)
       = Respond CREATED (toExternal starter_plan)
   \<and> plans (snd (post_plans example_env (request_of alice starter_body (object []) []) empty_db))
       = [starter_plan]
   \<and> ownerId starter_plan = alice_id
   \<and> property (toExternal starter_plan) ''ownerId'' = Some (JObjectId alice_id)"
proof -
  let ?r = "request_of alice starter_body (object []) []"
  have valid: "planSchema_validate example_env (post_parameters (body ?r)) = Inr starter_value"
    by (simp add: request_of_def starter_validates)
  have caller: "ObjectId example_env (user_identifier ?r) = Some alice_id"
    by (simp add: request_of_def ObjectId_alice)
  have fresh: "\<not> (\<exists>p \<in> set (plans empty_db). code p = code starter_value \<and> ownerId p = alice_id)"
    by (simp add: empty_db_def)
  from create_owner_is_caller [OF valid caller fresh]
  obtain p where p: "fst (post_plans example_env ?r empty_db) = Respond CREATED (toExternal p)"
      "plans (snd (post_plans example_env ?r empty_db)) = plans empty_db @ [p]"
      "ownerId p = alice_id"
      "property (toExternal p) ''ownerId'' = Some (JObjectId alice_id)"
    by blast
  have "plans (snd (post_plans example_env ?r empty_db)) = [starter_plan]"
    by (simp add: post_plans_def valid caller Plan_findOne_def empty_db_def save_def
        new_starter_plan)
  with p(2) have "p = starter_plan"
    by (simp add: empty_db_def)
  moreover have "starter_body ''ownerId'' = JStr bob"
    by (simp add: starter_body_def object_def)
  ultimately show ?thesis
    using p by (simp add: empty_db_def)
qed

text \<open>
  C6. A create request that passes validation, from a caller who already owns a plan with
  the normalised code, is answered with \<open>BAD_REQUEST\<close> and the duplicate-code message;
  the stored plans are unchanged, and the only store access is the lookup.
\<close>

theorem duplicate_code_rejected:
  assumes valid: "planSchema_validate e (post_parameters (body request)) = Inr v"
    and caller: "ObjectId e (user_identifier request) = Some owner"
    and dup: "\<exists>p \<in> set (plans d). code p = code v \<and> ownerId p = owner"
  shows "fst (post_plans e request d)
           = Respond BAD_REQUEST (message (js ''A plan with the specified code already exists.''))
         \<and> plans (snd (post_plans e request d)) = plans d
         \<and> accesses (snd (post_plans e request d))
             = accesses d @ [FindOne [Field ''code'' (Eq (JStr (code v))),
                                      Field ''ownerId'' (Eq (JObjectId owner))]]"
proof -
  let ?flt = "[Field ''code'' (Eq (JStr (code v))), Field ''ownerId'' (Eq (JObjectId owner))]"
  obtain q where q: "find (satisfies e ?flt) (plans d) = Some q"
    using dup by (cases "find (satisfies e ?flt) (plans d)") (auto simp: find_None_iff satisfies_code_owner)
  have run: "post_plans e request d
      = (Respond BAD_REQUEST (message (js ''A plan with the specified code already exists.'')),
         d\<lparr>accesses := accesses d @ [FindOne ?flt]\<rparr>)"
    by (simp add: post_plans_def valid caller Plan_findOne_def q)
  show ?thesis
    by (simp add: run) 
qed

theorem duplicate_code_rejected_witness:
  "fst (post_plans example_env (request_of alice starter_body (object []) []) starter_db)
     = Respond BAD_REQUEST (message (js ''A plan with the specified code already exists.''))
   \<and> plans (snd (post_plans example_env (request_of alice starter_body (object []) []) starter_db))
     = [starter_plan]"
proof -
  have valid: "planSchema_validate example_env
      (post_parameters (body (request_of alice starter_body (object []) []))) = Inr starter_value"
    by (simp add: request_of_def starter_validates)
  have caller: "ObjectId example_env (user_identifier (request_of alice starter_body (object []) []))
      = Some alice_id"
    by (simp add: request_of_def ObjectId_alice)
  have dup: "\<exists>p \<in> set (plans starter_db). code p = code starter_value \<and> ownerId p = alice_id"
    by (simp add: starter_db_def starter_plan_def starter_value_def)
  show ?thesis
    using duplicate_code_rejected [OF valid caller dup] by (simp add: starter_db_def)
qed

text \<open>
  C9, as amended. The \<open>name\<close> constraint lets a name through exactly when its trimmed
  length is between 2 and 100, and the value it yields is the trimmed name; a trimmed
  length of 0, of 1 or above 100 is refused.
\<close>

theorem name_length:
  "name_constraint e (JStr s) =
     (if trim s = [] then Inl (ValidationError ''name'' Empty)
      else if length (trim s) < 2 then Inl (ValidationError ''name'' TooShort)
      else if 100 < length (trim s) then Inl (ValidationError ''name'' TooLong)
      else Inr (trim s))"
  by (simp add: name_constraint_def joi_string_required_def coerce_string_def Let_def)

theorem name_length_witness:
  "name_constraint example_env (JStr (js '' Starter '')) = Inr (js ''Starter'')
   \<and> name_constraint example_env (JStr (js ''a'')) = Inl (ValidationError ''name'' TooShort)"
  using name_length [of example_env "js '' Starter ''"] name_length [of example_env "js ''a''"]
  by (simp add: trim_def js_def isWhiteSpace_def)

text \<open>C9 as stated fails for a name of one character: it is refused as too short.\<close>

theorem name_length_counterexample:
  "length (trim (js ''a'')) = 1
   \<and> name_constraint example_env (JStr (js ''a'')) = Inl (ValidationError ''name'' TooShort)"
  by (simp add: name_constraint_def joi_string_required_def coerce_string_def trim_def js_def isWhiteSpace_def)

section \<open>Reading a plan by its identifier\<close>

text \<open>
  C2. For an identifier that has the required shape and that the \<open>ObjectId\<close> constructor
  accepts, when the store holds no plan with both that identifier and the caller as
  owner, the answer is \<open>NOT_FOUND\<close> with the fixed message. It is the same answer,
  status and body, as for a store in which no plan has the identifier at all.
\<close>

theorem get_plan_not_found:
  assumes shape: "identifierPattern (params_identifier request)"
    and caller: "ObjectId e (user_identifier request) = Some owner"
    and wanted: "ObjectId e (params_identifier request) = Some i"
    and absent: "\<not> (\<exists>p \<in> set (plans d). ident p = i \<and> ownerId p = owner)"
  shows "fst (get_plan e request d)
           = Respond NOT_FOUND (message (js ''Cannot find a plan with the specified identifier.''))
         \<and> (\<forall>d'. (\<forall>p \<in> set (plans d'). ident p \<noteq> i) \<longrightarrow>
                fst (get_plan e request d') = fst (get_plan e request d))"
proof -
  let ?flt = "[Field ''_id'' (Eq (JObjectId i)), And [[Field ''ownerId'' (Eq (JObjectId owner))]]]"
  have miss: "find (satisfies e ?flt) (plans s) = None"
    if "\<not> (\<exists>p \<in> set (plans s). ident p = i \<and> ownerId p = owner)" for s
    using that by (auto simp: find_None_iff satisfies_id_owner)
  have run: "fst (get_plan e request s)
      = Respond NOT_FOUND (message (js ''Cannot find a plan with the specified identifier.''))"
    if "\<not> (\<exists>p \<in> set (plans s). ident p = i \<and> ownerId p = owner)" for s
    by (simp add: get_plan_def shape caller wanted Plan_findOne_def miss [OF that])
  show ?thesis
    using run [OF absent] run by auto
qed

theorem get_plan_not_found_witness:
  "fst (get_plan example_env (request_of bob (object []) (object []) (js ''5f1e5b1f8a1c2b0017a3d4ff'')) starter_db)
     = Respond NOT_FOUND (message (js ''Cannot find a plan with the specified identifier.''))
   \<and> fst (get_plan example_env (request_of bob (object []) (object []) (js ''5f1e5b1f8a1c2b0017a3d4ff'')) empty_db)
     = fst (get_plan example_env (request_of bob (object []) (object []) (js ''5f1e5b1f8a1c2b0017a3d4ff'')) starter_db)
   \<and> ident starter_plan = 0x5f1e5b1f8a1c2b0017a3d4ff
   \<and> ownerId starter_plan \<noteq> bob_id"
proof -
  let ?r = "request_of bob (object []) (object []) (js ''5f1e5b1f8a1c2b0017a3d4ff'')"
  have shape: "identifierPattern (params_identifier ?r)"
    by (simp add: request_of_def identifierPattern_def js_def isLower_def isDigit_def)
  have caller: "ObjectId example_env (user_identifier ?r) = Some bob_id"
    by (simp add: request_of_def ObjectId_bob)
  have wanted: "ObjectId example_env (params_identifier ?r) = Some (ident starter_plan)"
    by (simp add: request_of_def ObjectId_starter)
  have other: "ownerId starter_plan \<noteq> bob_id"
    by (simp add: starter_plan_def alice_id_def bob_id_def)
  have absent: "\<not> (\<exists>p \<in> set (plans starter_db). ident p = ident starter_plan \<and> ownerId p = bob_id)"
    using other by (simp add: starter_db_def)
  have nowhere: "\<forall>p \<in> set (plans empty_db). ident p \<noteq> ident starter_plan"
    by (simp add: empty_db_def)
  have i: "ident starter_plan = 0x5f1e5b1f8a1c2b0017a3d4ff"
    by (simp add: starter_plan_def)
  show ?thesis
    using get_plan_not_found [OF shape caller wanted absent] nowhere other i by simp
qed

text \<open>
  C5 fails for an identifier of 24 characters that are lower-case letters or digits but
  not all hexadecimal digits: the pattern accepts twenty-four times \<open>g\<close>, so the answer
  is never \<open>BAD_REQUEST\<close>, whatever the \<open>ObjectId\<close> constructor and the store do.
\<close>

theorem get_plan_non_hex:
  "identifierPattern (js ''gggggggggggggggggggggggg'')
   \<and> (\<forall>m. fst (get_plan e (request\<lparr>params_identifier := js ''gggggggggggggggggggggggg''\<rparr>) d)
            \<noteq> Respond BAD_REQUEST m)"
proof -
  have shape: "identifierPattern (js ''gggggggggggggggggggggggg'')"
    by (simp add: identifierPattern_def js_def isLower_def isDigit_def)
  show ?thesis
    by (simp add: shape get_plan_def Plan_findOne_def split: option.split)
qed

text \<open>In the example environment the constructor refuses that identifier, and the exception escapes.\<close>

theorem get_plan_non_hex_witness:
  "fst (get_plan example_env
          (request_of alice (object []) (object []) (js ''gggggggggggggggggggggggg'')) starter_db)
     = Throw ObjectIdError"
proof -
  have refused: "ObjectId example_env (js ''gggggggggggggggggggggggg'') = None"
    by (simp add: example_env_fields example_ObjectId_def js_def hexDigit_def isDigit_def)
  have accepted: "identifierPattern (js ''gggggggggggggggggggggggg'')"
    using get_plan_non_hex [of example_env "request_of alice (object []) (object []) []" starter_db]
    by simp
  show ?thesis
    by (simp add: get_plan_def request_of_def accepted ObjectId_alice refused)
qed

section \<open>The role gate on a user that no longer exists\<close>

text \<open>
  C3 fails: when the lookup succeeds with no user, reading \<open>user.role\<close> throws a
  \<open>TypeError\<close>; the gate neither answers \<open>FORBIDDEN\<close> nor forwards the request.
\<close>

theorem requireRole_missing_user:
  assumes "User_findById e (user_identifier request) = (None, None)"
  shows "requireRole r e request = Throw TypeError"
  using assms by (simp add: requireRole_def)

theorem requireRole_missing_user_witness:
  "requireRole (js ''admin'') example_env (request_of bob (object []) (object []) []) = Throw TypeError"
proof -
  have gone: "User_findById example_env (user_identifier (request_of bob (object []) (object []) []))
      = (None, None)"
    by (simp add: request_of_def example_env_fields example_User_findById_def bob_def js_def)
  show ?thesis
    using requireRole_missing_user [OF gone] .
qed

section \<open>Listing plans\<close>

text \<open>
  C4 fails: the two dates are made conditional on a property \<open>date_range\<close> of the object
  under validation, whose property is called \<open>dateRange\<close>; the condition never holds.
  A request with \<open>date_range=custom\<close> and no dates passes validation, is never answered
  with \<open>BAD_REQUEST\<close>, and, when the caller's identity is accepted, reaches the store
  with bounds computed from \<open>undefined\<close>.
\<close>

theorem custom_without_dates:
  "filterSchema_validate e (get_parameters (object [(''date_range'', JStr (js ''custom''))]))
     = Inr \<lparr> page = 0, limit = 20, dateRange = js ''custom'', startDate = None,
             endDate = None, search = None \<rparr>
   \<and> (\<forall>m. fst (get_plans e (request\<lparr>query := object [(''date_range'', JStr (js ''custom''))]\<rparr>) d)
            \<noteq> Respond BAD_REQUEST m)
   \<and> (\<forall>owner. ObjectId e (user_identifier request) = Some owner \<longrightarrow>
         accesses (snd (get_plans e
             (request\<lparr>query := object [(''date_range'', JStr (js ''custom''))]\<rparr>) d))
           = accesses d @
             [Paginate
                [Field ''ownerId'' (Eq (JObjectId owner)),
                 Field ''createdAt'' (Gte_Lte (startOfDay e JUndefined) (endOfDay e JUndefined))]
                20 1])"
proof -
  have v: "filterSchema_validate e (get_parameters (object [(''date_range'', JStr (js ''custom''))]))
     = Inr \<lparr> page = 0, limit = 20, dateRange = js ''custom'', startDate = None,
             endDate = None, search = None \<rparr>"
    by (simp add: filterSchema_validate_def get_parameters_def object_def joi_number_def
        joi_valid_def dateRange_tags_def joi_date_def when_is_def joi_string_nullable_def)
  have c: "js ''custom'' \<noteq> js ''all_time''"
    by (simp add: js_def)
  show ?thesis
    by (simp add: v c get_plans_def get_plans_validated_def resolve_dates_def Plan_paginate_def
        filters_def date_clause_def search_clause_def date_or_undefined_def
        split: option.split sum.split)
qed

theorem custom_without_dates_witness:
  "filterSchema_validate example_env
      (get_parameters (object [(''date_range'', JStr (js ''custom''))]))
     = Inr \<lparr> page = 0, limit = 20, dateRange = js ''custom'', startDate = None,
             endDate = None, search = None \<rparr>
   \<and> accesses (snd (get_plans example_env
          (request_of alice (object []) (object [(''date_range'', JStr (js ''custom''))]) [])
          starter_db))
     = [Paginate [Field ''ownerId'' (Eq (JObjectId alice_id)),
                  Field ''createdAt'' (Gte_Lte InvalidDate InvalidDate)] 20 1]"
proof -
  let ?r = "request_of alice (object []) (object []) []"
  have same: "?r\<lparr>query := object [(''date_range'', JStr (js ''custom''))]\<rparr>
      = request_of alice (object []) (object [(''date_range'', JStr (js ''custom''))]) []"
    by (simp add: request_of_def)
  have caller: "ObjectId example_env (user_identifier ?r) = Some alice_id"
    by (simp add: request_of_def ObjectId_alice)
  note run = custom_without_dates [of example_env ?r starter_db]
  note sent = run [THEN conjunct2, THEN conjunct2, THEN spec, THEN mp, OF caller]
  show ?thesis
    using run [THEN conjunct1] sent
    by (simp only: same) (simp add: starter_db_def example_env_fields)
qed






text \<open>
  C10. For a validated request with a bounded range, the filter handed to the store
  constrains \<open>createdAt\<close> by the resolved bounds and constrains no other path by an
  interval: whether a plan satisfies the filter does not depend on \<open>updatedAt\<close>, and a
  plan that satisfies it was created between the two bounds.
\<close>

theorem created_at_only:
  assumes valid: "filterSchema_validate e (get_parameters (query request)) = Inr v"
    and caller: "ObjectId e (user_identifier request) = Some owner"
    and dates: "resolve_dates e v = Inr (sd, ed)"
    and bounded: "dateRange v \<noteq> js ''all_time''"
  shows "\<exists>flt. accesses (snd (get_plans e request d))
                 = accesses d @ [Paginate flt (limit v) (page v + 1)]
           \<and> Field ''createdAt'' (Gte_Lte (startOfDay e sd) (endOfDay e ed)) \<in> set flt
           \<and> concat (map bounded_fields flt) = [''createdAt'']
           \<and> (\<forall>p u. satisfies e flt (p\<lparr>updatedAt := u\<rparr>) = satisfies e flt p)
           \<and> (\<forall>p a b. satisfies e flt p \<and> startOfDay e sd = Date a \<and> endOfDay e ed = Date b
                 \<longrightarrow> a \<le> createdAt p \<and> createdAt p \<le> b)"
proof -
  let ?flt = "filters e owner v sd ed"
  have sent: "accesses (snd (get_plans e request d))
          = accesses d @ [Paginate ?flt (limit v) (page v + 1)]"
    by (rule get_plans_access [OF valid caller dates])
  have clause: "Field ''createdAt'' (Gte_Lte (startOfDay e sd) (endOfDay e ed)) \<in> set ?flt"
    by (simp add: filters_def date_clause_def bounded)
  have only: "concat (map bounded_fields ?flt) = [''createdAt'']"
    by (simp add: filters_def date_clause_def bounded search_clause_unbounded)
  have updated: "satisfies e ?flt (p\<lparr>updatedAt := u\<rparr>) = satisfies e ?flt p" for p u
    by (simp add: satisfies_def filters_def date_clause_def bounded satisfies_search_updatedAt
        plan_field_def object_def)
  have created: "a \<le> createdAt p \<and> createdAt p \<le> b"
    if "satisfies e ?flt p \<and> startOfDay e sd = Date a \<and> endOfDay e ed = Date b" for p a b
  proof -
    from that have s: "satisfies e ?flt p" and lo: "startOfDay e sd = Date a"
      and hi: "endOfDay e ed = Date b"
      by simp_all
    from s show ?thesis
      by (simp add: satisfies_def filters_def date_clause_def bounded plan_field_def object_def
          lo hi)
  qed
  show ?thesis
    using sent clause only updated created by blast
qed

theorem created_at_only_witness:
  "accesses (snd (get_plans example_env (request_of alice (object []) custom_query []) starter_db))
     = [Paginate [Field ''ownerId'' (Eq (JObjectId alice_id)),
                  Field ''createdAt'' (Gte_Lte (Date 1598918400000) (Date 1601078399999))] 20 1]"
proof -
  let ?r = "request_of alice (object []) custom_query []"
  have valid: "filterSchema_validate example_env (get_parameters (query ?r)) = Inr custom_value"
    by (simp add: request_of_def custom_validates)
  have caller: "ObjectId example_env (user_identifier ?r) = Some alice_id"
    by (simp add: request_of_def ObjectId_alice)
  have c: "js ''custom'' \<noteq> js ''all_time''"
    by (simp add: js_def)
  have dates: "resolve_dates example_env custom_value
      = Inr (JDate (Date 1599000000000), JDate (Date 1601000000000))"
    by (simp add: resolve_dates_def custom_value_def date_or_undefined_def)
  have bounded: "dateRange custom_value \<noteq> js ''all_time''"
    by (simp add: custom_value_def c)
  from created_at_only [OF valid caller dates bounded, of starter_db]
  obtain flt where "accesses (snd (get_plans example_env ?r starter_db))
                 = accesses starter_db @ [Paginate flt (limit custom_value) (page custom_value + 1)]"
    by blast
  then show ?thesis
    by (simp add: get_plans_access [OF valid caller dates] filters_def date_clause_def c
        search_clause_def custom_value_def starter_db_def example_env_fields)
qed

end
